theory Spec2Isabelle
  imports Main
begin

section \<open>Python strings\<close>

text \<open>
  A Python \<open>str\<close> is modelled as a \<^typ>\<open>string\<close>; each \<^typ>\<open>char\<close> stands for the code
  point of the same number (U+0000 to U+00FF). \<open>str.lower()\<close> maps the upper-case
  letters of that range to their lower-case partners and leaves every other character
  alone.
\<close>

definition char_lower :: "char \<Rightarrow> char" where
  "char_lower c =
     (let n = (of_char c :: nat)
      in if (65 \<le> n \<and> n \<le> 90) \<or> (192 \<le> n \<and> n \<le> 214) \<or> (216 \<le> n \<and> n \<le> 222)
         then char_of (n + 32) else c)"

definition lower :: "string \<Rightarrow> string" where
  "lower s = map char_lower s"

text \<open>\<open>s.rfind(c)\<close>: the highest index of \<open>c\<close> in \<open>s\<close>, or \<open>-1\<close> when \<open>c\<close> does not occur.\<close>

fun rfind :: "char \<Rightarrow> string \<Rightarrow> int" where
  "rfind c [] = - 1"
| "rfind c (x # xs) =
     (let r = rfind c xs
      in if r \<noteq> - 1 then r + 1 else if x = c then 0 else - 1)"

text \<open>\<open>s.split(c)\<close> and \<open>c.join(xs)\<close>.\<close>

fun split_sep :: "char \<Rightarrow> string \<Rightarrow> string list" where
  "split_sep c [] = [[]]"
| "split_sep c (x # xs) =
     (if x = c then [] # split_sep c xs
      else (case split_sep c xs of [] \<Rightarrow> [[x]] | y # ys \<Rightarrow> (x # y) # ys))"

fun join_sep :: "char \<Rightarrow> string list \<Rightarrow> string" where
  "join_sep c [] = []"
| "join_sep c [x] = x"
| "join_sep c (x # y # ys) = x @ c # join_sep c (y # ys)"


section \<open>Exceptions\<close>

text \<open>
  The handlers of the program test three classes: \<open>FileNotFoundError\<close>, \<open>ValueError\<close> and
  \<open>Exception\<close>. An exception is therefore classified by the first of these it is an
  instance of: \<open>OtherException n\<close> is a class \<open>n\<close> that derives from \<open>Exception\<close> but from
  neither of the first two (\<open>PermissionError\<close>, \<open>TypeError\<close>, ...), and \<open>NonException n\<close>
  is a class that derives from \<open>BaseException\<close> only (\<open>KeyboardInterrupt\<close>, \<open>SystemExit\<close>).
  \<open>exc_str e\<close> is \<open>str(e)\<close>.
\<close>

datatype exc_class = FileNotFoundError | ValueError | OtherException string | NonException string

datatype exn = Exn (exc_class: exc_class) (exc_str: string)

fun is_Exception :: "exn \<Rightarrow> bool" where
  "is_Exception (Exn (NonException n) m) = False"
| "is_Exception (Exn c m) = True"

definition is_FileNotFoundError :: "exn \<Rightarrow> bool" where
  "is_FileNotFoundError e = (exc_class e = FileNotFoundError)"

definition is_ValueError :: "exn \<Rightarrow> bool" where
  "is_ValueError e = (exc_class e = ValueError)"


section \<open>pathlib\<close>

text \<open>
  \<open>pathlib.Path\<close> on a POSIX system, as CPython 3.7 to 3.12 implement \<open>PurePosixPath\<close>
  (the versions that \<open>setup.py\<close> names): a path is its root (\<open>''\<close>, \<open>/\<close> or \<open>//\<close>) and
  the list of its components. Parsing drops empty components and \<open>.\<close> components;
  exactly two leading slashes are kept as the root \<open>//\<close>, any other number of them is
  the root \<open>/\<close>. The Windows flavour (drives, the backslash as a separator) is not modelled.
\<close>

record pure_path =
  p_root :: string
  p_parts :: "string list"

definition splitroot :: "string \<Rightarrow> string \<times> string" where
  "splitroot part =
     (if part \<noteq> [] \<and> hd part = CHR ''/'' then
        (let stripped_part = dropWhile (\<lambda>c. c = CHR ''/'') part
         in if length part - length stripped_part = 2 then (''//'', stripped_part)
            else (''/'', stripped_part))
      else ('''', part))"

definition Path :: "string \<Rightarrow> pure_path" where
  "Path s =
     (let (r, rel) = splitroot s
      in \<lparr>p_root = r,
          p_parts = filter (\<lambda>x. x \<noteq> '''' \<and> x \<noteq> ''.'') (split_sep CHR ''/'' rel)\<rparr>)"

text \<open>\<open>str(p)\<close>: the root followed by the components joined with \<open>/\<close>, and \<open>.\<close> when that is empty.\<close>

definition str_path :: "pure_path \<Rightarrow> string" where
  "str_path p =
     (let s = p_root p @ join_sep CHR ''/'' (p_parts p)
      in if s = [] then ''.'' else s)"

text \<open>\<open>repr(p)\<close>, for paths whose text needs no escaping.\<close>

definition repr_path :: "pure_path \<Rightarrow> string" where
  "repr_path p = ''PosixPath('' @ [CHR 0x27] @ str_path p @ [CHR 0x27] @ '')''"

definition path_name :: "pure_path \<Rightarrow> string" where
  "path_name p = (if p_parts p = [] then '''' else last (p_parts p))"

definition path_suffix :: "pure_path \<Rightarrow> string" where
  "path_suffix p =
     (let name = path_name p; i = rfind CHR ''.'' name
      in if 0 < i \<and> i < int (length name) - 1 then drop (nat i) name else '''')"

definition path_stem :: "pure_path \<Rightarrow> string" where
  "path_stem p =
     (let name = path_name p; i = rfind CHR ''.'' name
      in if 0 < i \<and> i < int (length name) - 1 then take (nat i) name else name)"

definition path_parent :: "pure_path \<Rightarrow> pure_path" where
  "path_parent p = p\<lparr>p_parts := butlast (p_parts p)\<rparr>"

text \<open>\<open>p / key\<close> for a string \<open>key\<close>: an anchored \<open>key\<close> replaces \<open>p\<close>.\<close>

definition joinpath :: "pure_path \<Rightarrow> string \<Rightarrow> pure_path" where
  "joinpath p key =
     (let q = Path key
      in if p_root q \<noteq> [] then q else p\<lparr>p_parts := p_parts p @ p_parts q\<rparr>)"

text \<open>\<open>p.with_suffix(suffix)\<close> raises \<open>ValueError\<close> on an invalid suffix and on a path with an empty name.\<close>

definition with_suffix :: "pure_path \<Rightarrow> string \<Rightarrow> exn + pure_path" where
  "with_suffix p sfx =
     (if CHR ''/'' \<in> set sfx
        then Inl (Exn ValueError (''Invalid suffix '' @ [CHR 0x27] @ sfx @ [CHR 0x27]))
      else if (sfx \<noteq> [] \<and> hd sfx \<noteq> CHR ''.'') \<or> sfx = ''.''
        then Inl (Exn ValueError (''Invalid suffix '' @ [CHR 0x27] @ sfx @ [CHR 0x27]))
      else
        (let name = path_name p
         in if name = [] then Inl (Exn ValueError (repr_path p @ '' has an empty name''))
            else
              (let old_suffix = path_suffix p;
                   name' = (if old_suffix = [] then name @ sfx
                            else take (length name - length old_suffix) name @ sfx)
               in Inr (p\<lparr>p_parts := butlast (p_parts p) @ [name']\<rparr>))))"


section \<open>The world around the program\<close>

text \<open>
  The file system, the two libraries (\<open>rembg\<close>, \<open>PIL\<close>) and the two output streams are
  parameters of the model. Each call either returns or raises. The segmentation is a
  function of the bytes it is given, as the specification assumes of it; only \<open>save\<close>
  changes the file system, and it may have done so even when it raises.
  \<open>Path.exists()\<close> and \<open>Path.is_file()\<close> answer \<open>False\<close> when \<open>stat\<close> finds no entry and
  raise the \<open>OSError\<close> of any other failure of \<open>stat\<close> (\<open>PermissionError\<close>, a name that
  is too long); both are asked about the text of the parsed path, \<open>open\<close> about the
  string the caller gave. \<open>print\<close> raises when the stream refuses the text (an \<open>OSError\<close>
  of the stream, a \<open>UnicodeEncodeError\<close> for text that it cannot encode), and so does
  \<open>traceback.print_exc\<close>; the texts that one run prints to a stream differ from each
  other, so a function of the text describes any stream. Every call that the program
  makes and that returns to it is recorded, in order, as an event.
\<close>

type_synonym bytes = string

record ('fs, 'img) world =
  os_exists :: "'fs \<Rightarrow> string \<Rightarrow> exn + bool"
  os_is_file :: "'fs \<Rightarrow> string \<Rightarrow> exn + bool"
  read_bytes :: "'fs \<Rightarrow> string \<Rightarrow> exn + bytes"
  rembg_remove :: "bytes \<Rightarrow> exn + bytes"
  Image_open :: "bytes \<Rightarrow> exn + 'img"
  Image_save :: "'fs \<Rightarrow> 'img \<Rightarrow> string \<Rightarrow> exn option \<times> 'fs"
  print_stdout :: "string \<Rightarrow> exn option"
  print_stderr :: "string \<Rightarrow> exn option"
  print_exc :: "exn \<Rightarrow> exn option"

datatype event =
    Exists string
  | IsFile string
  | OpenRead string
  | Remove
  | ImageOpen
  | Save string
  | Stdout string
  | Stderr string
  | Traceback exn

type_synonym ('a, 'fs) outcome = "(exn + 'a) \<times> 'fs \<times> event list"


section \<open>remove\_background\<close>

text \<open>
  \<open>src/removebg/core.py\<close>, lines 69 to 76 (the same lines are 33 to 40 of
  \<open>src/removebg.py\<close>): the output path that the rest of the function writes to.
\<close>

definition resolve_output_path :: "pure_path \<Rightarrow> string option \<Rightarrow> exn + string" where
  "resolve_output_path input_file output_path =
     (case output_path of
        None \<Rightarrow>
          Inr (str_path (joinpath (path_parent input_file) (path_stem input_file @ ''_nobg.png'')))
      | Some op \<Rightarrow>
          (let output_file = Path op
           in if lower (path_suffix output_file) \<noteq> ''.png''
              then (case with_suffix output_file ''.png'' of
                      Inl e \<Rightarrow> Inl e
                    | Inr q \<Rightarrow> Inr (str_path q))
              else Inr op))"

text \<open>The body of the \<open>try\<close> statement, lines 79 to 91.\<close>

definition process_image ::
  "('fs, 'img) world \<Rightarrow> 'fs \<Rightarrow> string \<Rightarrow> string \<Rightarrow> (string, 'fs) outcome" where
  "process_image w fs input_path output_path =
     (case read_bytes w fs input_path of
        Inl e \<Rightarrow> (Inl e, fs, [OpenRead input_path])
      | Inr input_data \<Rightarrow>
          (case rembg_remove w input_data of
             Inl e \<Rightarrow> (Inl e, fs, [OpenRead input_path, Remove])
           | Inr output_data \<Rightarrow>
               (case Image_open w output_data of
                  Inl e \<Rightarrow> (Inl e, fs, [OpenRead input_path, Remove, ImageOpen])
                | Inr output_image \<Rightarrow>
                    (case Image_save w fs output_image output_path of
                       (Some e, fs') \<Rightarrow>
                         (Inl e, fs', [OpenRead input_path, Remove, ImageOpen, Save output_path])
                     | (None, fs') \<Rightarrow>
                         (Inr output_path, fs',
                          [OpenRead input_path, Remove, ImageOpen, Save output_path])))))"

text \<open>
  The whole function. \<open>except Exception as e\<close> catches what derives from \<open>Exception\<close>
  and raises \<open>ValueError\<close> in its place; any other exception leaves the function as it is.
\<close>

definition remove_background ::
  "('fs, 'img) world \<Rightarrow> 'fs \<Rightarrow> string \<Rightarrow> string option \<Rightarrow> (string, 'fs) outcome" where
  "remove_background w fs input_path output_path =
     (let input_file = Path input_path
      in case os_exists w fs (str_path input_file) of
           Inl e \<Rightarrow> (Inl e, fs, [Exists (str_path input_file)])
         | Inr False \<Rightarrow>
             (Inl (Exn FileNotFoundError (''Input file not found: '' @ input_path)), fs,
              [Exists (str_path input_file)])
         | Inr True \<Rightarrow>
             (case os_is_file w fs (str_path input_file) of
                Inl e \<Rightarrow> (Inl e, fs, [Exists (str_path input_file), IsFile (str_path input_file)])
              | Inr False \<Rightarrow>
                  (Inl (Exn ValueError (''Input path is not a file: '' @ input_path)), fs,
                   [Exists (str_path input_file), IsFile (str_path input_file)])
              | Inr True \<Rightarrow>
                  (case resolve_output_path input_file output_path of
                     Inl e \<Rightarrow>
                       (Inl e, fs, [Exists (str_path input_file), IsFile (str_path input_file)])
                   | Inr out \<Rightarrow>
                       (case process_image w fs input_path out of
                          (Inr r, fs', evs) \<Rightarrow>
                            (Inr r, fs',
                             [Exists (str_path input_file), IsFile (str_path input_file)] @ evs)
                        | (Inl e, fs', evs) \<Rightarrow>
                            (if is_Exception e
                             then Inl (Exn ValueError (''Failed to process image: '' @ exc_str e))
                             else Inl e,
                             fs',
                             [Exists (str_path input_file), IsFile (str_path input_file)] @ evs)))))"


section \<open>The command line\<close>

text \<open>
  \<open>main\<close> of \<open>src/removebg/cli.py\<close> (and of \<open>src/cli.py\<close>) from line 59 on, given the
  arguments that \<open>argparse\<close> produced. Its result is the exit code that \<open>main\<close> returns,
  or the exception that leaves it.
\<close>

record args =
  args_input :: string
  args_output :: "string option"
  args_verbose :: bool

text \<open>
  The body of the \<open>try\<close> statement, lines 60 to 68: the three prints are inside it, so
  what they raise reaches the handlers as what \<open>remove_background\<close> raises does.
\<close>

definition try_block :: "('fs, 'img) world \<Rightarrow> 'fs \<Rightarrow> args \<Rightarrow> (string, 'fs) outcome" where
  "try_block w fs a =
     (case (if args_verbose a then print_stdout w (''Processing: '' @ args_input a) else None) of
        Some e \<Rightarrow> (Inl e, fs, [])
      | None \<Rightarrow>
          (let pre = (if args_verbose a then [Stdout (''Processing: '' @ args_input a)] else [])
           in case remove_background w fs (args_input a) (args_output a) of
                (Inl e, fs', evs) \<Rightarrow> (Inl e, fs', pre @ evs)
              | (Inr output_path, fs', evs) \<Rightarrow>
                  (case print_stdout w ''Background removed successfully!'' of
                     Some e \<Rightarrow> (Inl e, fs', pre @ evs)
                   | None \<Rightarrow>
                       (case print_stdout w (''Saved to: '' @ output_path) of
                          Some e \<Rightarrow>
                            (Inl e, fs', pre @ evs @ [Stdout ''Background removed successfully!''])
                        | None \<Rightarrow>
                            (Inr output_path, fs',
                             pre @ evs @ [Stdout ''Background removed successfully!'',
                                          Stdout (''Saved to: '' @ output_path)])))))"

text \<open>
  The three handlers, lines 70 to 81, tried in the order of the source. What a print
  raises inside a handler is caught by no other handler and leaves \<open>main\<close>; an exception
  that none of the three classes matches leaves \<open>main\<close> as it is.
\<close>

definition handle_exception ::
  "('fs, 'img) world \<Rightarrow> args \<Rightarrow> exn \<Rightarrow> (exn + int) \<times> event list" where
  "handle_exception w a e =
     (if is_FileNotFoundError e then
        (case print_stderr w (''Error: '' @ exc_str e) of
           Some e' \<Rightarrow> (Inl e', [])
         | None \<Rightarrow> (Inr 1, [Stderr (''Error: '' @ exc_str e)]))
      else if is_ValueError e then
        (case print_stderr w (''Error: '' @ exc_str e) of
           Some e' \<Rightarrow> (Inl e', [])
         | None \<Rightarrow> (Inr 2, [Stderr (''Error: '' @ exc_str e)]))
      else if is_Exception e then
        (case print_stderr w (''Unexpected error: '' @ exc_str e) of
           Some e' \<Rightarrow> (Inl e', [])
         | None \<Rightarrow>
             (if args_verbose a then
                (case print_exc w e of
                   Some e' \<Rightarrow> (Inl e', [Stderr (''Unexpected error: '' @ exc_str e)])
                 | None \<Rightarrow>
                     (Inr 3, [Stderr (''Unexpected error: '' @ exc_str e), Traceback e]))
              else (Inr 3, [Stderr (''Unexpected error: '' @ exc_str e)])))
      else (Inl e, []))"

definition main :: "('fs, 'img) world \<Rightarrow> 'fs \<Rightarrow> args \<Rightarrow> (int, 'fs) outcome" where
  "main w fs a =
     (case try_block w fs a of
        (Inr output_path, fs', evs) \<Rightarrow> (Inr 0, fs', evs)
      | (Inl e, fs', evs) \<Rightarrow>
          (case handle_exception w a e of (r, evs') \<Rightarrow> (r, fs', evs @ evs')))"

text \<open>The verbose print of line 61 does not fail, so that \<open>remove_background\<close> is called.\<close>

definition verbose_print_ok :: "('fs, 'img) world \<Rightarrow> args \<Rightarrow> bool" where
  "verbose_print_ok w a =
     (args_verbose a \<longrightarrow> print_stdout w (''Processing: '' @ args_input a) = None)"


section \<open>Auxiliary notions\<close>

text \<open>
  The components that parsing produces: not empty, not \<open>.\<close>, free of \<open>/\<close>. \<open>Path\<close> yields
  only paths of this shape, and on them \<open>str\<close> followed by \<open>Path\<close> is the identity.
\<close>

definition wf_name :: "string \<Rightarrow> bool" where
  "wf_name x = (x \<noteq> [] \<and> x \<noteq> ''.'' \<and> CHR ''/'' \<notin> set x)"

definition wf_path :: "pure_path \<Rightarrow> bool" where
  "wf_path p =
     ((p_root p = [] \<or> p_root p = ''/'' \<or> p_root p = ''//'') \<and> list_all wf_name (p_parts p))"

text \<open>The events in which a file is opened, for reading or for writing.\<close>

fun opens_file :: "event \<Rightarrow> bool" where
  "opens_file (OpenRead p) = True"
| "opens_file (Save p) = True"
| "opens_file e = False"


text \<open>
  An example world for the concrete instances below. Its file system is an association
  list from the text of a path to the entry there: a file with its content, a directory,
  or a directory that the user may not search. A string names an entry as POSIX resolves
  it: the empty string names nothing, a component of more than 255 characters is too
  long, and a file is not named by a string that goes on after it (\<open>photo.jpg/\<close>).
  \<open>stat\<close> is refused below a directory that may not be searched. The stand-in for
  \<open>rembg\<close> accepts data that starts with \<open>JPEG\<close> and rejects everything else, as the
  library rejects what it cannot identify; \<open>save\<close> and the prints always succeed.
\<close>

datatype node = File bytes | Dir | SealedDir

datatype stat_result = Found node | ENOENT | ENOTDIR | ENAMETOOLONG | EACCES

definition lookup_entry :: "(string \<times> node) list \<Rightarrow> string \<Rightarrow> stat_result" where
  "lookup_entry fs s =
     (if s = [] then ENOENT
      else if list_ex (\<lambda>x. 255 < length x) (split_sep CHR ''/'' s) then ENAMETOOLONG
      else (case map_of fs (str_path (Path s)) of
              None \<Rightarrow> ENOENT
            | Some (File b) \<Rightarrow>
                if last (split_sep CHR ''/'' s) = [] \<or> last (split_sep CHR ''/'' s) = ''.''
                then ENOTDIR else Found (File b)
            | Some Dir \<Rightarrow> Found Dir
            | Some SealedDir \<Rightarrow> Found SealedDir))"

definition names_entry :: "(string \<times> node) list \<Rightarrow> string \<Rightarrow> bool" where
  "names_entry fs s = (case lookup_entry fs s of Found n \<Rightarrow> True | _ \<Rightarrow> False)"

definition names_regular_file :: "(string \<times> node) list \<Rightarrow> string \<Rightarrow> bool" where
  "names_regular_file fs s = (case lookup_entry fs s of Found (File b) \<Rightarrow> True | _ \<Rightarrow> False)"

definition sealed_above :: "(string \<times> node) list \<Rightarrow> string \<Rightarrow> bool" where
  "sealed_above fs s =
     (let p = Path s
      in list_ex (\<lambda>k. map_of fs (str_path (p\<lparr>p_parts := take k (p_parts p)\<rparr>)) = Some SealedDir)
           [1..<length (p_parts p)])"

definition sample_stat :: "(string \<times> node) list \<Rightarrow> string \<Rightarrow> stat_result" where
  "sample_stat fs s = (if s \<noteq> [] \<and> sealed_above fs s then EACCES else lookup_entry fs s)"

fun stat_error :: "stat_result \<Rightarrow> exn" where
  "stat_error (Found n) = Exn (OtherException ''IsADirectoryError'') ''[Errno 21] Is a directory''"
| "stat_error ENOENT = Exn FileNotFoundError ''[Errno 2] No such file or directory''"
| "stat_error ENOTDIR = Exn (OtherException ''NotADirectoryError'') ''[Errno 20] Not a directory''"
| "stat_error ENAMETOOLONG = Exn (OtherException ''OSError'') ''[Errno 36] File name too long''"
| "stat_error EACCES = Exn (OtherException ''PermissionError'') ''[Errno 13] Permission denied''"

fun exists_answer :: "stat_result \<Rightarrow> exn + bool" where
  "exists_answer (Found n) = Inr True"
| "exists_answer ENOENT = Inr False"
| "exists_answer ENOTDIR = Inr False"
| "exists_answer r = Inl (stat_error r)"

fun is_file_answer :: "stat_result \<Rightarrow> exn + bool" where
  "is_file_answer (Found (File b)) = Inr True"
| "is_file_answer (Found n) = Inr False"
| "is_file_answer ENOENT = Inr False"
| "is_file_answer ENOTDIR = Inr False"
| "is_file_answer r = Inl (stat_error r)"

fun read_answer :: "stat_result \<Rightarrow> exn + bytes" where
  "read_answer (Found (File b)) = Inr b"
| "read_answer r = Inl (stat_error r)"

definition sample_world :: "((string \<times> node) list, bytes) world" where
  "sample_world =
     \<lparr>os_exists = (\<lambda>fs p. exists_answer (sample_stat fs p)),
      os_is_file = (\<lambda>fs p. is_file_answer (sample_stat fs p)),
      read_bytes = (\<lambda>fs p. read_answer (sample_stat fs p)),
      rembg_remove = (\<lambda>b. if take 4 b = ''JPEG'' then Inr (''PNG'' @ drop 4 b)
                          else Inl (Exn (OtherException ''UnidentifiedImageError'')
                                      ''cannot identify image file'')),
      Image_open = (\<lambda>b. if take 3 b = ''PNG'' then Inr b
                        else Inl (Exn (OtherException ''UnidentifiedImageError'')
                                    ''cannot identify image file'')),
      Image_save = (\<lambda>fs img p. (None, (p, File img) # fs)),
      print_stdout = (\<lambda>s. None),
      print_stderr = (\<lambda>s. None),
      print_exc = (\<lambda>e. None)\<rparr>"

definition sample_fs :: "(string \<times> node) list" where
  "sample_fs = [(''.'', Dir),
                (''photo.jpg'', File ''JPEG red square''),
                (''notes.txt'', File ''This is not an image''),
                (''album'', Dir),
                (''vault'', SealedDir),
                (''vault/album'', Dir)]"

text \<open>The same world with the user interrupting the segmentation (Ctrl-C).\<close>

definition interrupted_world :: "((string \<times> node) list, bytes) world" where
  "interrupted_world =
     sample_world\<lparr>rembg_remove :=
       (\<lambda>b. Inl (Exn (NonException ''KeyboardInterrupt'') ''interrupted''))\<rparr>"

text \<open>The same world with a file system that refuses the \<open>stat\<close> call behind \<open>exists()\<close>.\<close>

definition guarded_world :: "((string \<times> node) list, bytes) world" where
  "guarded_world =
     sample_world\<lparr>os_exists :=
       (\<lambda>fs p. Inl (Exn (OtherException ''PermissionError'') ''[Errno 13] Permission denied''))\<rparr>"

text \<open>The same world with the input file gone by the time it is opened.\<close>

definition vanishing_world :: "((string \<times> node) list, bytes) world" where
  "vanishing_world =
     sample_world\<lparr>read_bytes :=
       (\<lambda>fs p. Inl (Exn FileNotFoundError ''[Errno 2] No such file or directory''))\<rparr>"





definition long_name :: string where
  "long_name = replicate 300 CHR ''a'' @ ''.jpg''"


section \<open>The model on the examples of pathlib's documentation\<close>

lemma pathlib_parsing_examples:
  "str_path (Path ''foo//bar'') = ''foo/bar''"
  "str_path (Path ''//foo/bar'') = ''//foo/bar''"
  "str_path (Path ''///foo/bar'') = ''/foo/bar''"
  "str_path (Path ''foo/./bar'') = ''foo/bar''"
  "str_path (Path ''foo/../bar'') = ''foo/../bar''"
  "str_path (Path '''') = ''.''"
  "str_path (joinpath (joinpath (Path ''/etc'') ''init.d'') ''apache2'') = ''/etc/init.d/apache2''"
  "str_path (joinpath (Path ''/etc'') ''/usr'') = ''/usr''"
  by code_simp+

lemma pathlib_component_examples:
  "path_name (Path ''my/library/setup.py'') = ''setup.py''"
  "path_suffix (Path ''my/library/setup.py'') = ''.py''"
  "path_suffix (Path ''my/library.tar.gz'') = ''.gz''"
  "path_suffix (Path ''my/library'') = ''''"
  "path_suffix (Path ''my/.bashrc'') = ''''"
  "path_suffix (Path ''my/file.'') = ''''"
  "path_stem (Path ''my/library.tar.gz'') = ''library.tar''"
  "path_stem (Path ''my/library.tar'') = ''library''"
  "path_stem (Path ''my/library'') = ''library''"
  "str_path (path_parent (Path ''/a/b/c/d'')) = ''/a/b/c''"
  "str_path (path_parent (Path ''/'')) = ''/''"
  "str_path (path_parent (Path ''.'')) = ''.''"
  "str_path (path_parent (Path ''setup.py'')) = ''.''"
  by code_simp+

lemma pathlib_with_suffix_examples:
  "with_suffix (Path ''/Downloads/pathlib.tar.gz'') ''.bz2'' = Inr (Path ''/Downloads/pathlib.tar.bz2'')"
  "with_suffix (Path ''README'') ''.txt'' = Inr (Path ''README.txt'')"
  "with_suffix (Path ''README.txt'') '''' = Inr (Path ''README'')"
  "with_suffix (Path ''README'') ''txt'' = Inl (Exn ValueError (''Invalid suffix '' @ [CHR 0x27] @ ''txt'' @ [CHR 0x27]))"
  "with_suffix (Path ''/'') ''.txt'' = Inl (Exn ValueError ''PosixPath('/') has an empty name'')"
  by code_simp+

lemma lower_examples:
  "lower ''.PNG'' = ''.png''" "lower ''.Png'' = ''.png''" "lower ''.jpg'' = ''.jpg''"
  "lower ''a-Z_09'' = ''a-z_09''"
  by code_simp+


section \<open>Facts about strings and paths\<close>

lemma split_sep_no_sep: "x \<in> set (split_sep c s) \<Longrightarrow> c \<notin> set x"
  by (induction s arbitrary: x) (auto split: list.splits if_splits)

lemma split_sep_single: "c \<notin> set x \<Longrightarrow> split_sep c x = [x]"
  by (induction x) auto

lemma split_sep_append: "c \<notin> set x \<Longrightarrow> split_sep c (x @ c # s) = x # split_sep c s"
  by (induction x) auto

lemma split_sep_join:
  "xs \<noteq> [] \<Longrightarrow> \<forall>x\<in>set xs. c \<notin> set x \<Longrightarrow> split_sep c (join_sep c xs) = xs"
  by (induction c xs rule: join_sep.induct) (auto simp: split_sep_single split_sep_append)

lemma rfind_bounds: "- 1 \<le> rfind c s \<and> rfind c s < int (length s)"
  by (induction s) (auto simp: Let_def)

lemma rfind_absent: "c \<notin> set s \<Longrightarrow> rfind c s = - 1"
  by (induction s) (auto simp: Let_def)

lemma rfind_last: "c \<notin> set t \<Longrightarrow> rfind c (s @ c # t) = int (length s)"
  by (induction s) (auto simp: Let_def rfind_absent)

lemma splitroot_root:
  "fst (splitroot s) = [] \<or> fst (splitroot s) = ''/'' \<or> fst (splitroot s) = ''//''"
  by (simp add: splitroot_def Let_def)

lemma wf_path_Path: "wf_path (Path s)"
proof -
  obtain r rel where sr: "splitroot s = (r, rel)" by (cases "splitroot s")
  have "r = [] \<or> r = ''/'' \<or> r = ''//''" using splitroot_root [of s] sr by simp
  moreover have "list_all wf_name (filter (\<lambda>x. x \<noteq> [] \<and> x \<noteq> ''.'') (split_sep CHR ''/'' rel))"
    by (auto simp: list_all_iff wf_name_def dest: split_sep_no_sep)
  ultimately show ?thesis by (simp add: wf_path_def Path_def sr)
qed

lemma join_sep_Nil_iff: "list_all wf_name xs \<Longrightarrow> (join_sep c xs = []) = (xs = [])"
  by (induction c xs rule: join_sep.induct) (auto simp: wf_name_def)

lemma join_sep_hd:
  assumes wf: "list_all wf_name xs" and ne: "xs \<noteq> []"
  shows "hd (join_sep CHR ''/'' xs) \<noteq> CHR ''/''"
proof -
  obtain x ys where xs: "xs = x # ys" using ne by (cases xs) auto
  have x: "x \<noteq> []" "CHR ''/'' \<notin> set x" using wf xs by (auto simp: wf_name_def)
  then have "hd x \<noteq> CHR ''/''" by (cases x) auto
  moreover have "hd (join_sep CHR ''/'' xs) = hd x" using x xs by (cases ys) auto
  ultimately show ?thesis by simp
qed

lemma dropWhile_join:
  assumes wf: "list_all wf_name xs"
  shows "dropWhile (\<lambda>c. c = CHR ''/'') (join_sep CHR ''/'' xs) = join_sep CHR ''/'' xs"
proof (cases xs)
  case Nil
  then show ?thesis by simp
next
  case (Cons a list)
  then have "join_sep CHR ''/'' xs \<noteq> []" using wf join_sep_Nil_iff [of xs] by simp
  moreover have "hd (join_sep CHR ''/'' xs) \<noteq> CHR ''/''" using wf Cons join_sep_hd by simp
  ultimately show ?thesis by (cases "join_sep CHR ''/'' xs") auto
qed

lemma parts_of_join:
  assumes "list_all wf_name xs"
  shows "filter (\<lambda>x. x \<noteq> [] \<and> x \<noteq> ''.'') (split_sep CHR ''/'' (join_sep CHR ''/'' xs)) = xs"
proof (cases xs)
  case Nil
  then show ?thesis by simp
next
  case (Cons a list)
  have "split_sep CHR ''/'' (join_sep CHR ''/'' xs) = xs"
    using assms Cons by (intro split_sep_join) (auto simp: list_all_iff wf_name_def)
  moreover have "filter (\<lambda>x. x \<noteq> [] \<and> x \<noteq> ''.'') xs = xs"
    using assms by (auto simp: list_all_iff wf_name_def filter_id_conv)
  ultimately show ?thesis by simp
qed

lemma splitroot_rel:
  "list_all wf_name xs \<Longrightarrow> xs \<noteq> [] \<Longrightarrow>
     splitroot (join_sep CHR ''/'' xs) = ([], join_sep CHR ''/'' xs)"
  using join_sep_hd [of xs] by (simp add: splitroot_def)

lemma splitroot_slash:
  "list_all wf_name xs \<Longrightarrow>
     splitroot (CHR ''/'' # join_sep CHR ''/'' xs) = (''/'', join_sep CHR ''/'' xs)"
  by (simp add: splitroot_def dropWhile_join)

lemma splitroot_slash2:
  "list_all wf_name xs \<Longrightarrow>
     splitroot (CHR ''/'' # CHR ''/'' # join_sep CHR ''/'' xs) = (''//'', join_sep CHR ''/'' xs)"
  by (simp add: splitroot_def dropWhile_join)

lemma Path_str_path:
  assumes "wf_path p"
  shows "Path (str_path p) = p"
proof -
  have wf: "list_all wf_name (p_parts p)" using assms by (simp add: wf_path_def)
  consider (rel) "p_root p = []" | (abs) "p_root p = ''/''" | (abs2) "p_root p = ''//''"
    using assms by (auto simp: wf_path_def)
  then show ?thesis
  proof cases
    case rel
    show ?thesis
    proof (cases "p_parts p = []")
      case True
      then show ?thesis using rel by (simp add: str_path_def Path_def splitroot_def)
    next
      case False
      then have "str_path p = join_sep CHR ''/'' (p_parts p)"
        using rel wf join_sep_Nil_iff [of "p_parts p"] by (simp add: str_path_def)
      then show ?thesis using rel wf False
        by (simp add: Path_def splitroot_rel parts_of_join)
    qed
  next
    case abs
    then show ?thesis using wf
      by (simp add: str_path_def Path_def splitroot_slash parts_of_join)
  next
    case abs2
    then show ?thesis using wf
      by (simp add: str_path_def Path_def splitroot_slash2 parts_of_join)
  qed
qed

lemma path_name_snoc: "p_parts p = xs @ [n] \<Longrightarrow> path_name p = n"
  by (simp add: path_name_def)

lemma path_suffix_png:
  assumes "path_name p = base @ ''.png''" and "base \<noteq> []"
  shows "path_suffix p = ''.png''"
proof -
  have "rfind CHR ''.'' (base @ CHR ''.'' # ''png'') = int (length base)"
    by (rule rfind_last) simp
  then show ?thesis using assms by (simp add: path_suffix_def)
qed

lemma stem_suffix_name: "path_stem p @ path_suffix p = path_name p"
  by (simp add: path_stem_def path_suffix_def Let_def)

lemma suffix_Nil_stem: "path_suffix p = [] \<Longrightarrow> path_stem p = path_name p"
  using rfind_bounds [of "CHR ''.''" "path_name p"]
  by (auto simp: path_stem_def path_suffix_def Let_def split: if_splits)

lemma stem_not_Nil: "path_name p \<noteq> [] \<Longrightarrow> path_stem p \<noteq> []"
  by (auto simp: path_stem_def Let_def)

lemma stem_subset: "set (path_stem p) \<subseteq> set (path_name p)"
  by (auto simp: path_stem_def Let_def dest: in_set_takeD)

lemma with_suffix_png:
  assumes "path_name p \<noteq> []"
  shows "with_suffix p ''.png'' =
           Inr (p\<lparr>p_parts := butlast (p_parts p) @ [path_stem p @ ''.png'']\<rparr>)"
proof (cases "path_suffix p = []")
  case True
  then show ?thesis using assms by (simp add: with_suffix_def suffix_Nil_stem)
next
  case False
  have "length (path_name p) = length (path_stem p) + length (path_suffix p)"
    using stem_suffix_name [of p] by (metis length_append)
  then have "take (length (path_name p) - length (path_suffix p)) (path_name p) = path_stem p"
    using stem_suffix_name [of p] by (metis add_diff_cancel_right' append_eq_conv_conj)
  then show ?thesis using assms False by (simp add: with_suffix_def Let_def)
qed

lemma with_suffix_empty_name:
  "path_name p = [] \<Longrightarrow>
     with_suffix p ''.png'' = Inl (Exn ValueError (repr_path p @ '' has an empty name''))"
  by (simp add: with_suffix_def)

lemma name_no_slash: "wf_path p \<Longrightarrow> CHR ''/'' \<notin> set (path_name p)"
  by (cases "p_parts p = []") (auto simp: wf_path_def path_name_def list_all_iff wf_name_def)

lemma stem_ext_wf:
  assumes "wf_path p" and "ext \<noteq> []" and "CHR ''/'' \<notin> set ext" and "path_stem p @ ext \<noteq> ''.''"
  shows "wf_name (path_stem p @ ext)"
  using assms name_no_slash [of p] stem_subset [of p] by (auto simp: wf_name_def)

lemma wf_path_replace_last:
  "wf_path p \<Longrightarrow> wf_name n \<Longrightarrow> wf_path (p\<lparr>p_parts := butlast (p_parts p) @ [n]\<rparr>)"
  by (auto simp: wf_path_def list_all_iff dest: in_set_butlastD)

lemma Path_single:
  assumes "wf_name n"
  shows "Path n = \<lparr>p_root = [], p_parts = [n]\<rparr>"
proof -
  have "hd n \<noteq> CHR ''/''" using assms by (cases n) (auto simp: wf_name_def)
  then have "splitroot n = ([], n)" by (simp add: splitroot_def)
  moreover have "split_sep CHR ''/'' n = [n]"
    using assms by (simp add: split_sep_single wf_name_def)
  ultimately show ?thesis using assms by (simp add: Path_def wf_name_def)
qed

lemma joinpath_parent:
  "wf_name n \<Longrightarrow> joinpath (path_parent p) n = p\<lparr>p_parts := butlast (p_parts p) @ [n]\<rparr>"
  by (simp add: joinpath_def Path_single path_parent_def)


text \<open>The two ways in which \<open>resolve_output_path\<close> builds a path, and what parsing the result gives back.\<close>

lemma lower_png: "lower ''.png'' = ''.png''"
  by code_simp

lemma replace_last_roundtrip:
  assumes "wf_path p" and "wf_name n"
  shows "Path (str_path (p\<lparr>p_parts := butlast (p_parts p) @ [n]\<rparr>)) =
           p\<lparr>p_parts := butlast (p_parts p) @ [n]\<rparr>"
  using assms by (intro Path_str_path wf_path_replace_last)

lemma resolve_default:
  "resolve_output_path (Path i) None =
     Inr (str_path ((Path i)\<lparr>p_parts := butlast (p_parts (Path i)) @ [path_stem (Path i) @ ''_nobg.png'']\<rparr>))"
proof -
  have "wf_name (path_stem (Path i) @ ''_nobg.png'')"
    by (rule stem_ext_wf [OF wf_path_Path]) auto
  then show ?thesis by (simp add: resolve_output_path_def joinpath_parent)
qed

lemma Path_default:
  assumes "resolve_output_path (Path i) None = Inr out"
  shows "Path out = (Path i)\<lparr>p_parts := butlast (p_parts (Path i)) @ [path_stem (Path i) @ ''_nobg.png'']\<rparr>"
proof -
  have "wf_name (path_stem (Path i) @ ''_nobg.png'')"
    by (rule stem_ext_wf [OF wf_path_Path]) auto
  then show ?thesis
    using assms replace_last_roundtrip [OF wf_path_Path, of "path_stem (Path i) @ ''_nobg.png''" i]
    by (simp add: resolve_default)
qed

lemma resolve_caller:
  "resolve_output_path P (Some op) =
     (if lower (path_suffix (Path op)) = ''.png'' then Inr op
      else if path_name (Path op) = []
        then Inl (Exn ValueError (repr_path (Path op) @ '' has an empty name''))
      else Inr (str_path ((Path op)\<lparr>p_parts := butlast (p_parts (Path op)) @ [path_stem (Path op) @ ''.png'']\<rparr>)))"
  by (simp add: resolve_output_path_def with_suffix_png with_suffix_empty_name)

lemma Path_replaced:
  assumes "path_name (Path op) \<noteq> []"
  shows "Path (str_path ((Path op)\<lparr>p_parts := butlast (p_parts (Path op)) @ [path_stem (Path op) @ ''.png'']\<rparr>))
         = (Path op)\<lparr>p_parts := butlast (p_parts (Path op)) @ [path_stem (Path op) @ ''.png'']\<rparr>"
proof -
  have "path_stem (Path op) \<noteq> []" using assms by (rule stem_not_Nil)
  then have "wf_name (path_stem (Path op) @ ''.png'')"
    by (intro stem_ext_wf [OF wf_path_Path]) auto
  then show ?thesis by (rule replace_last_roundtrip [OF wf_path_Path])
qed

lemma name_replace_last: "path_name (p\<lparr>p_parts := xs @ [n]\<rparr>) = n"
  by (simp add: path_name_def)

lemma parent_replace_last: "path_parent (p\<lparr>p_parts := butlast (p_parts p) @ [n]\<rparr>) = path_parent p"
  by (simp add: path_parent_def)

lemma path_stem_png:
  assumes "path_name p = base @ ''.png''" and "base \<noteq> []"
  shows "path_stem p = base"
proof -
  have "rfind CHR ''.'' (base @ CHR ''.'' # ''png'') = int (length base)"
    by (rule rfind_last) simp
  then show ?thesis using assms by (simp add: path_stem_def)
qed


section \<open>Facts about a run\<close>

lemma process_image_Inr:
  "process_image w fs i out = (Inr r, fs', evs) \<Longrightarrow>
     r = out \<and> evs = [OpenRead i, Remove, ImageOpen, Save out]"
  by (auto simp: process_image_def split: sum.splits prod.splits option.splits)

lemma process_image_Save:
  "process_image w fs i out = (res, fs', evs) \<Longrightarrow> Save p \<in> set evs \<Longrightarrow> p = out"
  by (auto simp: process_image_def split: sum.splits prod.splits option.splits)

lemma remove_background_validated:
  assumes "os_exists w fs (str_path (Path i)) = Inr True"
    and "os_is_file w fs (str_path (Path i)) = Inr True"
    and "resolve_output_path (Path i) outp = Inr out"
  shows "remove_background w fs i outp =
           (case process_image w fs i out of
              (Inr r, fs', evs) \<Rightarrow>
                (Inr r, fs', [Exists (str_path (Path i)), IsFile (str_path (Path i))] @ evs)
            | (Inl e, fs', evs) \<Rightarrow>
                (if is_Exception e
                 then Inl (Exn ValueError (''Failed to process image: '' @ exc_str e))
                 else Inl e,
                 fs', [Exists (str_path (Path i)), IsFile (str_path (Path i))] @ evs))"
  using assms by (simp add: remove_background_def Let_def)

lemma run_output_path:
  assumes "remove_background w fs i outp = (res, fs', evs)"
    and "res = Inr p \<or> Save p \<in> set evs"
  shows "os_exists w fs (str_path (Path i)) = Inr True \<and>
         os_is_file w fs (str_path (Path i)) = Inr True \<and>
         resolve_output_path (Path i) outp = Inr p"
  using assms
  by (auto simp: remove_background_def Let_def
           split: sum.splits bool.splits prod.splits if_splits
           dest: process_image_Inr process_image_Save)


section \<open>Facts about the command line\<close>

lemma main_result:
  "fst (main w fs a) =
     (case fst (try_block w fs a) of
        Inr p \<Rightarrow> Inr 0
      | Inl e \<Rightarrow> fst (handle_exception w a e))"
  by (cases "try_block w fs a") (auto simp: main_def split: sum.splits prod.splits)

lemma main_fs: "fst (snd (main w fs a)) = fst (snd (try_block w fs a))"
  by (cases "try_block w fs a") (auto simp: main_def split: sum.splits prod.splits)

lemma try_block_raised:
  assumes "verbose_print_ok w a"
    and "fst (remove_background w fs (args_input a) (args_output a)) = Inl e"
  shows "fst (try_block w fs a) = Inl e"
  using assms
  by (cases "remove_background w fs (args_input a) (args_output a)")
     (auto simp: try_block_def verbose_print_ok_def Let_def)


lemma try_block_fs:
  assumes "verbose_print_ok w a"
  shows "fst (snd (try_block w fs a)) =
           fst (snd (remove_background w fs (args_input a) (args_output a)))"
  using assms
  by (cases "remove_background w fs (args_input a) (args_output a)")
     (auto simp: try_block_def verbose_print_ok_def Let_def split: option.splits sum.splits)


lemma handle_FileNotFoundError:
  "exc_class e = FileNotFoundError \<Longrightarrow>
     fst (handle_exception w a e) =
       (case print_stderr w (''Error: '' @ exc_str e) of Some e' \<Rightarrow> Inl e' | None \<Rightarrow> Inr 1)"
  by (simp add: handle_exception_def is_FileNotFoundError_def split: option.splits)

lemma handle_ValueError:
  "exc_class e = ValueError \<Longrightarrow>
     fst (handle_exception w a e) =
       (case print_stderr w (''Error: '' @ exc_str e) of Some e' \<Rightarrow> Inl e' | None \<Rightarrow> Inr 2)"
  by (simp add: handle_exception_def is_FileNotFoundError_def is_ValueError_def
           split: option.splits)



lemma handle_not_3:
  "exc_class e = ValueError \<or> \<not> is_Exception e \<Longrightarrow> fst (handle_exception w a e) \<noteq> Inr 3"
  by (cases e)
     (auto simp: handle_exception_def is_FileNotFoundError_def is_ValueError_def
           split: option.splits)


section \<open>Validation errors\<close>

text \<open>
  Claim C3, as the code has it. When \<open>Path(input).exists()\<close> answers that there is no
  entry, \<open>remove_background\<close> raises \<open>FileNotFoundError\<close>; the only call it has made is
  that check, so nothing is written and the file system is the one it started with.
  \<open>main\<close> then returns the exit code 1, provided that the verbose print before the call
  and the print of the error message do not fail. When the check itself raises, what it
  raises leaves \<open>remove_background\<close> unchanged.
\<close>

theorem missing_input_not_found:
  "(os_exists w fs (str_path (Path (args_input a))) = Inr False \<longrightarrow>
      remove_background w fs (args_input a) (args_output a) =
        (Inl (Exn FileNotFoundError (''Input file not found: '' @ args_input a)), fs,
         [Exists (str_path (Path (args_input a)))])
      \<and> (verbose_print_ok w a
          \<and> print_stderr w (''Error: Input file not found: '' @ args_input a) = None \<longrightarrow>
          fst (main w fs a) = Inr 1 \<and> fst (snd (main w fs a)) = fs))
   \<and> (os_exists w fs (str_path (Path (args_input a))) = Inl e \<longrightarrow>
      remove_background w fs (args_input a) (args_output a) =
        (Inl e, fs, [Exists (str_path (Path (args_input a)))]))"
proof -
  let ?e = "Exn FileNotFoundError (''Input file not found: '' @ args_input a)"
  have run: "remove_background w fs (args_input a) (args_output a) =
        (Inl ?e, fs, [Exists (str_path (Path (args_input a)))])"
    if "os_exists w fs (str_path (Path (args_input a))) = Inr False"
    using that by (simp add: remove_background_def Let_def)
  have exit: "fst (main w fs a) = Inr 1 \<and> fst (snd (main w fs a)) = fs"
    if ex: "os_exists w fs (str_path (Path (args_input a))) = Inr False"
      and v: "verbose_print_ok w a"
      and p: "print_stderr w (''Error: Input file not found: '' @ args_input a) = None"
  proof -
    have "fst (try_block w fs a) = Inl ?e"
      using run [OF ex] by (intro try_block_raised [OF v]) simp
    moreover have "fst (handle_exception w a ?e) = Inr 1"
      using p by (simp add: handle_FileNotFoundError)
    moreover have "fst (snd (try_block w fs a)) = fs"
      using run [OF ex] by (simp add: try_block_fs [OF v])
    ultimately show ?thesis by (simp add: main_result main_fs)
  qed
  have raised: "remove_background w fs (args_input a) (args_output a) =
        (Inl e, fs, [Exists (str_path (Path (args_input a)))])"
    if "os_exists w fs (str_path (Path (args_input a))) = Inl e"
    using that by (simp add: remove_background_def Let_def)
  show ?thesis using run exit raised by blast
qed

theorem missing_input_not_found_witness:
  "os_exists sample_world sample_fs (str_path (Path ''missing.jpg'')) = Inr False
   \<and> remove_background sample_world sample_fs ''missing.jpg'' (Some ''out.png'') =
       (Inl (Exn FileNotFoundError ''Input file not found: missing.jpg''), sample_fs,
        [Exists (str_path (Path ''missing.jpg''))])
   \<and> fst (main sample_world sample_fs
            \<lparr>args_input = ''missing.jpg'', args_output = Some ''out.png'', args_verbose = True\<rparr>)
       = Inr 1
   \<and> os_exists sample_world sample_fs (str_path (Path long_name))
       = Inl (Exn (OtherException ''OSError'') ''[Errno 36] File name too long'')
   \<and> fst (remove_background sample_world sample_fs long_name None)
       = Inl (Exn (OtherException ''OSError'') ''[Errno 36] File name too long'')"
proof -
  let ?a = "\<lparr>args_input = ''missing.jpg'', args_output = Some ''out.png'', args_verbose = True\<rparr>"
  let ?b = "\<lparr>args_input = long_name, args_output = None, args_verbose = False\<rparr>"
  let ?long = "Exn (OtherException ''OSError'') ''[Errno 36] File name too long''"
  have h: "os_exists sample_world sample_fs (str_path (Path ''missing.jpg'')) = Inr False"
    by code_simp
  have v: "verbose_print_ok sample_world ?a"
    by (simp add: verbose_print_ok_def sample_world_def)
  have p: "print_stderr sample_world (''Error: Input file not found: '' @ ''missing.jpg'') = None"
    by (simp add: sample_world_def)
  have l: "os_exists sample_world sample_fs (str_path (Path long_name)) = Inl ?long"
    by code_simp
  show ?thesis
    using h v p l
      missing_input_not_found [of sample_world sample_fs ?a ?long]
      missing_input_not_found [of sample_world sample_fs ?b ?long]
    by simp
qed

text \<open>
  The claim as written fails for three strings that name no entry of the file system.
  \<open>photo.jpg/\<close> is parsed to \<open>photo.jpg\<close>, which exists, and the run ends in the
  \<open>ValueError\<close> of the failed \<open>open\<close>; the empty string is parsed to \<open>.\<close>, a directory,
  and the run ends in the \<open>ValueError\<close> of the file-type check; for a name of more than
  255 characters \<open>exists()\<close> raises \<open>OSError\<close>, and \<open>main\<close> returns 3.
\<close>

theorem missing_input_counterexample:
  "\<not> names_entry sample_fs ''photo.jpg/''
   \<and> fst (remove_background sample_world sample_fs ''photo.jpg/'' None)
       = Inl (Exn ValueError ''Failed to process image: [Errno 20] Not a directory'')
   \<and> fst (main sample_world sample_fs
            \<lparr>args_input = ''photo.jpg/'', args_output = None, args_verbose = False\<rparr>) = Inr 2
   \<and> \<not> names_entry sample_fs ''''
   \<and> fst (remove_background sample_world sample_fs '''' None)
       = Inl (Exn ValueError ''Input path is not a file: '')
   \<and> \<not> names_entry sample_fs long_name
   \<and> fst (remove_background sample_world sample_fs long_name None)
       = Inl (Exn (OtherException ''OSError'') ''[Errno 36] File name too long'')
   \<and> fst (main sample_world sample_fs
            \<lparr>args_input = long_name, args_output = None, args_verbose = False\<rparr>) = Inr 3"
  by code_simp

text \<open>
  Claim C4, as the code has it. When \<open>Path(input).exists()\<close> answers yes and
  \<open>is_file()\<close> answers no (a directory, for one), \<open>remove_background\<close> raises
  \<open>ValueError\<close>, and \<open>main\<close> returns the exit code 2, provided that the verbose print
  before the call and the print of the error message do not fail. When one of the two
  checks itself raises, what it raises leaves \<open>remove_background\<close> unchanged.
\<close>

theorem non_file_input_invalid:
  "(os_exists w fs (str_path (Path (args_input a))) = Inr True
      \<and> os_is_file w fs (str_path (Path (args_input a))) = Inr False \<longrightarrow>
      fst (remove_background w fs (args_input a) (args_output a)) =
        Inl (Exn ValueError (''Input path is not a file: '' @ args_input a))
      \<and> (verbose_print_ok w a
          \<and> print_stderr w (''Error: Input path is not a file: '' @ args_input a) = None \<longrightarrow>
          fst (main w fs a) = Inr 2))
   \<and> (os_exists w fs (str_path (Path (args_input a))) = Inl e
       \<or> (os_exists w fs (str_path (Path (args_input a))) = Inr True
           \<and> os_is_file w fs (str_path (Path (args_input a))) = Inl e) \<longrightarrow>
      fst (remove_background w fs (args_input a) (args_output a)) = Inl e)"
proof -
  let ?e = "Exn ValueError (''Input path is not a file: '' @ args_input a)"
  have run: "fst (remove_background w fs (args_input a) (args_output a)) = Inl ?e"
    if "os_exists w fs (str_path (Path (args_input a))) = Inr True"
      and "os_is_file w fs (str_path (Path (args_input a))) = Inr False"
    using that by (simp add: remove_background_def Let_def)
  have exit: "fst (main w fs a) = Inr 2"
    if ex: "os_exists w fs (str_path (Path (args_input a))) = Inr True"
      and nf: "os_is_file w fs (str_path (Path (args_input a))) = Inr False"
      and v: "verbose_print_ok w a"
      and p: "print_stderr w (''Error: Input path is not a file: '' @ args_input a) = None"
  proof -
    have "fst (try_block w fs a) = Inl ?e"
      using run [OF ex nf] by (rule try_block_raised [OF v])
    moreover have "fst (handle_exception w a ?e) = Inr 2"
      using p by (simp add: handle_ValueError)
    ultimately show ?thesis by (simp add: main_result)
  qed
  have raised: "fst (remove_background w fs (args_input a) (args_output a)) = Inl e"
    if "os_exists w fs (str_path (Path (args_input a))) = Inl e
       \<or> (os_exists w fs (str_path (Path (args_input a))) = Inr True
           \<and> os_is_file w fs (str_path (Path (args_input a))) = Inl e)"
    using that by (auto simp: remove_background_def Let_def)
  show ?thesis using run exit raised by blast
qed

theorem non_file_input_invalid_witness:
  "os_exists sample_world sample_fs (str_path (Path ''album'')) = Inr True
   \<and> os_is_file sample_world sample_fs (str_path (Path ''album'')) = Inr False
   \<and> fst (remove_background sample_world sample_fs ''album'' None) =
       Inl (Exn ValueError ''Input path is not a file: album'')
   \<and> fst (main sample_world sample_fs
            \<lparr>args_input = ''album'', args_output = None, args_verbose = False\<rparr>) = Inr 2
   \<and> fst (remove_background guarded_world sample_fs ''album'' None)
       = Inl (Exn (OtherException ''PermissionError'') ''[Errno 13] Permission denied'')"
proof -
  let ?a = "\<lparr>args_input = ''album'', args_output = None, args_verbose = False\<rparr>"
  let ?e = "Exn (OtherException ''PermissionError'') ''[Errno 13] Permission denied''"
  have h1: "os_exists sample_world sample_fs (str_path (Path ''album'')) = Inr True"
    by code_simp
  have h2: "os_is_file sample_world sample_fs (str_path (Path ''album'')) = Inr False"
    by code_simp
  have v: "verbose_print_ok sample_world ?a"
    by (simp add: verbose_print_ok_def)
  have p: "print_stderr sample_world (''Error: Input path is not a file: '' @ ''album'') = None"
    by (simp add: sample_world_def)
  have g: "os_exists guarded_world sample_fs (str_path (Path ''album'')) = Inl ?e"
    by (simp add: guarded_world_def)
  show ?thesis
    using h1 h2 v p g
      non_file_input_invalid [of sample_world sample_fs ?a ?e]
      non_file_input_invalid [of guarded_world sample_fs ?a ?e]
    by simp
qed

text \<open>
  The claim as written fails for a directory below a directory that may not be
  searched: it exists and is no regular file, \<open>exists()\<close> raises \<open>PermissionError\<close>, and
  \<open>main\<close> returns 3.
\<close>

theorem non_file_input_counterexample:
  "names_entry sample_fs ''vault/album''
   \<and> \<not> names_regular_file sample_fs ''vault/album''
   \<and> fst (remove_background sample_world sample_fs ''vault/album'' None)
       = Inl (Exn (OtherException ''PermissionError'') ''[Errno 13] Permission denied'')
   \<and> fst (main sample_world sample_fs
            \<lparr>args_input = ''vault/album'', args_output = None, args_verbose = False\<rparr>) = Inr 3"
  by code_simp


text \<open>
  Claim C9. Both validation errors are raised before any file is opened: when the
  existence check answers no, or answers yes and the file-type check answers no, the run
  ends in \<open>FileNotFoundError\<close> (respectively \<open>ValueError\<close>), the file system it leaves is
  the one it found, and its events hold neither a read nor a save.
\<close>

theorem validation_failure_leaves_files_alone:
  assumes "os_exists w fs (str_path (Path i)) = Inr False
           \<or> (os_exists w fs (str_path (Path i)) = Inr True
              \<and> os_is_file w fs (str_path (Path i)) = Inr False)"
  shows "\<exists>e evs. remove_background w fs i outp = (Inl e, fs, evs)
           \<and> exc_class e = (if os_exists w fs (str_path (Path i)) = Inr False
                             then FileNotFoundError else ValueError)
           \<and> \<not> list_ex opens_file evs"
  using assms by (auto simp: remove_background_def Let_def)

theorem validation_failure_leaves_files_alone_witness:
  "(os_exists sample_world sample_fs (str_path (Path ''album'')) = Inr False
    \<or> (os_exists sample_world sample_fs (str_path (Path ''album'')) = Inr True
       \<and> os_is_file sample_world sample_fs (str_path (Path ''album'')) = Inr False))
   \<and> (\<exists>e evs. remove_background sample_world sample_fs ''album'' (Some ''out.jpg'') =
                 (Inl e, sample_fs, evs)
        \<and> exc_class e = ValueError \<and> \<not> list_ex opens_file evs)"
proof -
  have h1: "os_exists sample_world sample_fs (str_path (Path ''album'')) = Inr True"
    by code_simp
  have h2: "os_is_file sample_world sample_fs (str_path (Path ''album'')) = Inr False"
    by code_simp
  show ?thesis
    using h1 h2 validation_failure_leaves_files_alone
      [of sample_world sample_fs "''album''" "Some ''out.jpg''"]
    by simp
qed


section \<open>Determinism of the output path\<close>

text \<open>
  Claim C10. The output path of a run, that is the path it saves to or returns, is a
  function of the two argument strings: two runs with the same arguments, in any two
  worlds and on any two file systems, have the same output path, and it is the value of
  \<open>resolve_output_path\<close> at those arguments.
\<close>

theorem output_path_depends_on_arguments_only:
  assumes "remove_background w1 fs1 i outp = (res1, fs1', evs1)"
    and "res1 = Inr p1 \<or> Save p1 \<in> set evs1"
    and "remove_background w2 fs2 i outp = (res2, fs2', evs2)"
    and "res2 = Inr p2 \<or> Save p2 \<in> set evs2"
  shows "p1 = p2 \<and> resolve_output_path (Path i) outp = Inr p1"
  using run_output_path [OF assms(1,2)] run_output_path [OF assms(3,4)] by simp

theorem output_path_depends_on_arguments_only_witness:
  "remove_background sample_world sample_fs ''photo.jpg'' (Some ''cut.jpeg'') =
     (Inr ''cut.png'', (''cut.png'', File ''PNG red square'') # sample_fs,
      [Exists ''photo.jpg'', IsFile ''photo.jpg'', OpenRead ''photo.jpg'', Remove, ImageOpen,
       Save ''cut.png''])
   \<and> remove_background sample_world [(''photo.jpg'', File ''JPEG blue'')] ''photo.jpg''
         (Some ''cut.jpeg'') =
     (Inr ''cut.png'', [(''cut.png'', File ''PNG blue''), (''photo.jpg'', File ''JPEG blue'')],
      [Exists ''photo.jpg'', IsFile ''photo.jpg'', OpenRead ''photo.jpg'', Remove, ImageOpen,
       Save ''cut.png''])
   \<and> resolve_output_path (Path ''photo.jpg'') (Some ''cut.jpeg'') = Inr ''cut.png''"
proof -
  have r1: "remove_background sample_world sample_fs ''photo.jpg'' (Some ''cut.jpeg'') =
     (Inr ''cut.png'', (''cut.png'', File ''PNG red square'') # sample_fs,
      [Exists ''photo.jpg'', IsFile ''photo.jpg'', OpenRead ''photo.jpg'', Remove, ImageOpen,
       Save ''cut.png''])"
    by code_simp
  have r2: "remove_background sample_world [(''photo.jpg'', File ''JPEG blue'')] ''photo.jpg''
         (Some ''cut.jpeg'') =
     (Inr ''cut.png'', [(''cut.png'', File ''PNG blue''), (''photo.jpg'', File ''JPEG blue'')],
      [Exists ''photo.jpg'', IsFile ''photo.jpg'', OpenRead ''photo.jpg'', Remove, ImageOpen,
       Save ''cut.png''])"
    by code_simp
  show ?thesis
    using r1 r2 output_path_depends_on_arguments_only [OF r1 _ r2, of "''cut.png''" "''cut.png''"]
    by simp
qed


section \<open>The output path\<close>

text \<open>
  Claim C5. For an input that exists and is a regular file, and no output path from the
  caller, the output path is the input's parent directory joined with the input's stem
  followed by \<open>_nobg.png\<close>: this is what \<open>resolve_output_path\<close> yields and the only
  path such a run saves to or returns. Read back as a path, it has the parent of the
  input and the name \<open><stem>_nobg.png\<close>, the stem being the input's name without its
  final suffix.
\<close>

theorem default_output_beside_input:
  assumes "os_exists w fs (str_path (Path i)) = Inr True"
    and "os_is_file w fs (str_path (Path i)) = Inr True"
    and "out = str_path (joinpath (path_parent (Path i)) (path_stem (Path i) @ ''_nobg.png''))"
  shows "resolve_output_path (Path i) None = Inr out
         \<and> (\<forall>res fs' evs p. remove_background w fs i None = (res, fs', evs)
                \<and> (res = Inr p \<or> Save p \<in> set evs) \<longrightarrow> p = out)
         \<and> (fst (process_image w fs i out) = Inr out \<longrightarrow>
              fst (remove_background w fs i None) = Inr out)
         \<and> path_parent (Path out) = path_parent (Path i)
         \<and> path_name (Path out) = path_stem (Path i) @ ''_nobg.png''
         \<and> path_stem (Path i) @ path_suffix (Path i) = path_name (Path i)"
proof -
  have res: "resolve_output_path (Path i) None = Inr out"
    using assms(3) by (simp add: resolve_output_path_def)
  have runs: "\<forall>res fs' evs p. remove_background w fs i None = (res, fs', evs)
                \<and> (res = Inr p \<or> Save p \<in> set evs) \<longrightarrow> p = out"
    using res run_output_path [of w fs i None] by fastforce
  have returns: "fst (remove_background w fs i None) = Inr out"
    if "fst (process_image w fs i out) = Inr out"
    using that by (cases "process_image w fs i out")
      (simp add: remove_background_validated [OF assms(1,2) res])
  have P: "Path out = (Path i)\<lparr>p_parts := butlast (p_parts (Path i))
                                    @ [path_stem (Path i) @ ''_nobg.png'']\<rparr>"
    using res by (rule Path_default)
  have "path_parent (Path out) = path_parent (Path i)"
    by (simp only: P parent_replace_last)
  moreover have "path_name (Path out) = path_stem (Path i) @ ''_nobg.png''"
    by (simp only: P name_replace_last)
  ultimately show ?thesis using res runs returns stem_suffix_name by blast
qed

theorem default_output_beside_input_witness:
  "os_exists sample_world [(''pics/day.one.jpeg'', File ''JPEG sea'')]
       (str_path (Path ''pics/day.one.jpeg'')) = Inr True
   \<and> os_is_file sample_world [(''pics/day.one.jpeg'', File ''JPEG sea'')]
       (str_path (Path ''pics/day.one.jpeg'')) = Inr True
   \<and> resolve_output_path (Path ''pics/day.one.jpeg'') None = Inr ''pics/day.one_nobg.png''
   \<and> fst (remove_background sample_world [(''pics/day.one.jpeg'', File ''JPEG sea'')]
            ''pics/day.one.jpeg'' None) = Inr ''pics/day.one_nobg.png''
   \<and> path_name (Path ''pics/day.one_nobg.png'') = ''day.one_nobg.png''
   \<and> path_stem (Path ''pics/day.one.jpeg'') = ''day.one''"
proof -
  let ?fs = "[(''pics/day.one.jpeg'', File ''JPEG sea'')]"
  have h1: "os_exists sample_world ?fs (str_path (Path ''pics/day.one.jpeg'')) = Inr True"
    by code_simp
  have h2: "os_is_file sample_world ?fs (str_path (Path ''pics/day.one.jpeg'')) = Inr True"
    by code_simp
  have h3: "''pics/day.one_nobg.png'' =
            str_path (joinpath (path_parent (Path ''pics/day.one.jpeg''))
                        (path_stem (Path ''pics/day.one.jpeg'') @ ''_nobg.png''))"
    by code_simp
  have h4: "path_stem (Path ''pics/day.one.jpeg'') = ''day.one''"
    by code_simp
  have h5: "fst (process_image sample_world ?fs ''pics/day.one.jpeg'' ''pics/day.one_nobg.png'')
              = Inr ''pics/day.one_nobg.png''"
    by code_simp
  show ?thesis
    using h1 h2 h4 h5 default_output_beside_input [OF h1 h2 h3] by simp
qed

text \<open>
  Claim C6, as the code has it. A caller's output path whose suffix (the part of its
  final component from the last dot on, when that dot is neither the first nor the last
  character of the component) is \<open>.png\<close> in any mix of cases is passed through as the
  string it is. Any other path with a final component becomes the text of the parsed
  path with the last component replaced by its stem followed by \<open>.png\<close>: the same root
  and parent, the same stem, and the suffix \<open>.png\<close>, which replaces the old suffix or is
  added when there was none. A path without a final component (\<open>''\<close>, \<open>.\<close>, \<open>/\<close>) makes
  \<open>with_suffix\<close> raise \<open>ValueError\<close>, which leaves \<open>remove_background\<close>. Whatever a run
  saves to or returns is the path so resolved.
\<close>

theorem caller_output_path:
  "(lower (path_suffix (Path op)) = ''.png'' \<longrightarrow> resolve_output_path P (Some op) = Inr op)
   \<and> (lower (path_suffix (Path op)) \<noteq> ''.png'' \<and> path_name (Path op) \<noteq> [] \<longrightarrow>
        (let q = (Path op)\<lparr>p_parts := butlast (p_parts (Path op))
                                        @ [path_stem (Path op) @ ''.png'']\<rparr>
         in resolve_output_path P (Some op) = Inr (str_path q)
            \<and> Path (str_path q) = q
            \<and> p_root q = p_root (Path op)
            \<and> path_parent q = path_parent (Path op)
            \<and> path_name q = path_stem (Path op) @ ''.png''
            \<and> path_stem q = path_stem (Path op)
            \<and> path_suffix q = ''.png''))
   \<and> (lower (path_suffix (Path op)) \<noteq> ''.png'' \<and> path_name (Path op) = [] \<longrightarrow>
        resolve_output_path P (Some op)
          = Inl (Exn ValueError (repr_path (Path op) @ '' has an empty name''))
        \<and> (os_exists w fs (str_path (Path i)) = Inr True
             \<and> os_is_file w fs (str_path (Path i)) = Inr True \<longrightarrow>
            fst (remove_background w fs i (Some op))
              = Inl (Exn ValueError (repr_path (Path op) @ '' has an empty name''))))
   \<and> (remove_background w fs i (Some op) = (res, fs', evs)
        \<and> (res = Inr p \<or> Save p \<in> set evs) \<longrightarrow>
        resolve_output_path (Path i) (Some op) = Inr p)"
proof -
  let ?Q = "(Path op)\<lparr>p_parts := butlast (p_parts (Path op)) @ [path_stem (Path op) @ ''.png'']\<rparr>"
  have replaced: "resolve_output_path P (Some op) = Inr (str_path ?Q)
            \<and> Path (str_path ?Q) = ?Q
            \<and> p_root ?Q = p_root (Path op)
            \<and> path_parent ?Q = path_parent (Path op)
            \<and> path_name ?Q = path_stem (Path op) @ ''.png''
            \<and> path_stem ?Q = path_stem (Path op)
            \<and> path_suffix ?Q = ''.png''"
    if neq: "lower (path_suffix (Path op)) \<noteq> ''.png''" and ne: "path_name (Path op) \<noteq> []"
  proof -
    have r: "resolve_output_path P (Some op) = Inr (str_path ?Q)"
      using neq ne by (simp add: resolve_caller)
    have Q: "Path (str_path ?Q) = ?Q" using ne by (rule Path_replaced)
    have n: "path_name ?Q = path_stem (Path op) @ ''.png''" by (simp add: name_replace_last)
    have "path_parent ?Q = path_parent (Path op)" by (rule parent_replace_last)
    moreover have "path_stem ?Q = path_stem (Path op)"
      using n stem_not_Nil [OF ne] by (rule path_stem_png)
    moreover have "path_suffix ?Q = ''.png''"
      using n stem_not_Nil [OF ne] by (rule path_suffix_png)
    ultimately show ?thesis using r Q n by simp
  qed
  have raised: "fst (remove_background w fs i (Some op))
              = Inl (Exn ValueError (repr_path (Path op) @ '' has an empty name''))"
    if "lower (path_suffix (Path op)) \<noteq> ''.png''" and "path_name (Path op) = []"
      and "os_exists w fs (str_path (Path i)) = Inr True"
      and "os_is_file w fs (str_path (Path i)) = Inr True"
    using that by (simp add: remove_background_def Let_def resolve_caller)
  show ?thesis
    unfolding Let_def
    using replaced raised run_output_path [of w fs i "Some op" res fs' evs p]
    by (simp add: resolve_caller)
qed

theorem caller_output_path_witness:
  "lower (path_suffix (Path ''shots/Cut.Png'')) = ''.png''
   \<and> resolve_output_path (Path ''photo.jpg'') (Some ''shots/Cut.Png'') = Inr ''shots/Cut.Png''
   \<and> lower (path_suffix (Path ''./shots//cut.tar.gz'')) \<noteq> ''.png''
   \<and> path_name (Path ''./shots//cut.tar.gz'') \<noteq> []
   \<and> resolve_output_path (Path ''photo.jpg'') (Some ''./shots//cut.tar.gz'')
        = Inr ''shots/cut.tar.png''
   \<and> path_suffix (Path ''shots/cut.tar.png'') = ''.png''
   \<and> path_stem (Path ''shots/cut.tar.png'') = path_stem (Path ''./shots//cut.tar.gz'')
   \<and> path_name (Path ''/'') = []
   \<and> fst (remove_background sample_world sample_fs ''photo.jpg'' (Some ''/''))
        = Inl (Exn ValueError ''PosixPath('/') has an empty name'')"
proof -
  have a: "lower (path_suffix (Path ''shots/Cut.Png'')) = ''.png''" by code_simp
  have b: "lower (path_suffix (Path ''./shots//cut.tar.gz'')) \<noteq> ''.png''" by code_simp
  have c: "path_name (Path ''./shots//cut.tar.gz'') \<noteq> []" by code_simp
  have d: "str_path ((Path ''./shots//cut.tar.gz'')
             \<lparr>p_parts := butlast (p_parts (Path ''./shots//cut.tar.gz''))
                          @ [path_stem (Path ''./shots//cut.tar.gz'') @ ''.png'']\<rparr>)
             = ''shots/cut.tar.png''"
    by code_simp
  have e: "lower (path_suffix (Path ''/'')) \<noteq> ''.png''" by code_simp
  have f: "path_name (Path ''/'') = []" by code_simp
  have g: "repr_path (Path ''/'') @ '' has an empty name'' = ''PosixPath('/') has an empty name''"
    by code_simp
  have h1: "os_exists sample_world sample_fs (str_path (Path ''photo.jpg'')) = Inr True"
    by code_simp
  have h2: "os_is_file sample_world sample_fs (str_path (Path ''photo.jpg'')) = Inr True"
    by code_simp
  have i1: "resolve_output_path (Path ''photo.jpg'') (Some ''shots/Cut.Png'') = Inr ''shots/Cut.Png''"
    using a caller_output_path [where op = "''shots/Cut.Png''" and P = "Path ''photo.jpg''"
        and w = sample_world and fs = sample_fs and i = "''photo.jpg''"
        and res = "Inr ''shots/Cut.Png''" and fs' = sample_fs and evs = "[]"
        and p = "''shots/Cut.Png''"]
    by simp
  have i2: "resolve_output_path (Path ''photo.jpg'') (Some ''./shots//cut.tar.gz'')
              = Inr ''shots/cut.tar.png''
            \<and> path_suffix (Path ''shots/cut.tar.png'') = ''.png''
            \<and> path_stem (Path ''shots/cut.tar.png'') = path_stem (Path ''./shots//cut.tar.gz'')"
    using b c caller_output_path [where op = "''./shots//cut.tar.gz''" and P = "Path ''photo.jpg''"
        and w = sample_world and fs = sample_fs and i = "''photo.jpg''"
        and res = "Inr ''shots/Cut.Png''" and fs' = sample_fs and evs = "[]"
        and p = "''shots/Cut.Png''"]
    unfolding Let_def d by metis
  have i3: "fst (remove_background sample_world sample_fs ''photo.jpg'' (Some ''/''))
        = Inl (Exn ValueError ''PosixPath('/') has an empty name'')"
    using e f g h1 h2 caller_output_path [where op = "''/''" and P = "Path ''photo.jpg''"
        and w = sample_world and fs = sample_fs and i = "''photo.jpg''"
        and res = "Inr ''shots/Cut.Png''" and fs' = sample_fs and evs = "[]"
        and p = "''shots/Cut.Png''"]
    by simp
  show ?thesis using a b c f i1 i2 i3 by simp
qed

text \<open>
  The claim as written fails for the output path \<open>.\<close>, which has no suffix and is
  not given one: the run ends in \<open>ValueError\<close>. It also fails for \<open>pics/.png\<close>, a string
  that ends in \<open>.png\<close> and is not passed through, since the leading dot of a component
  starts no suffix.
\<close>

theorem caller_output_counterexample:
  "fst (remove_background sample_world sample_fs ''photo.jpg'' (Some ''.''))
     = Inl (Exn ValueError ''PosixPath('.') has an empty name'')
   \<and> fst (remove_background sample_world sample_fs ''photo.jpg'' (Some ''pics/.png''))
     = Inr ''pics/.png.png''"
  by code_simp


text \<open>
  Claim C1, as the code has it. The path that a successful run returns has a suffix equal
  to \<open>.png\<close> when letter case is ignored. It is exactly \<open>.png\<close> when the caller gave no
  output path, or one whose suffix is not \<open>.png\<close> in some mix of cases; a caller's path
  whose suffix already is \<open>.png\<close> in some mix of cases is returned unchanged.
\<close>

theorem returned_suffix_is_png_up_to_case:
  assumes "remove_background w fs i outp = (Inr r, fs', evs)"
  shows "lower (path_suffix (Path r)) = ''.png''
         \<and> (case outp of
               None \<Rightarrow> path_suffix (Path r) = ''.png''
             | Some op \<Rightarrow>
                 if lower (path_suffix (Path op)) = ''.png'' then r = op
                 else path_suffix (Path r) = ''.png'')"
proof -
  have res: "resolve_output_path (Path i) outp = Inr r"
    using run_output_path [OF assms] by simp
  show ?thesis
  proof (cases outp)
    case None
    then have "Path r = (Path i)\<lparr>p_parts := butlast (p_parts (Path i))
                                      @ [path_stem (Path i) @ ''_nobg.png'']\<rparr>"
      using res Path_default by simp
    then have "path_name (Path r) = (path_stem (Path i) @ ''_nobg'') @ ''.png''"
      by (simp add: name_replace_last)
    then have "path_suffix (Path r) = ''.png''"
      by (rule path_suffix_png) simp
    then show ?thesis using None by (simp add: lower_png)
  next
    case (Some op)
    show ?thesis
    proof (cases "lower (path_suffix (Path op)) = ''.png''")
      case True
      then have "r = op" using res Some by (simp add: resolve_caller)
      then show ?thesis using True Some by simp
    next
      case False
      then have ne: "path_name (Path op) \<noteq> []"
        using res Some by (auto simp: resolve_caller split: if_splits)
      then have "r = str_path ((Path op)\<lparr>p_parts := butlast (p_parts (Path op))
                                             @ [path_stem (Path op) @ ''.png'']\<rparr>)"
        using res Some False by (simp add: resolve_caller)
      then have "path_name (Path r) = path_stem (Path op) @ ''.png''"
        using Path_replaced [OF ne] by (simp add: name_replace_last)
      then have "path_suffix (Path r) = ''.png''"
        using stem_not_Nil [OF ne] by (rule path_suffix_png)
      then show ?thesis using False Some by (simp add: lower_png)
    qed
  qed
qed

theorem returned_suffix_is_png_up_to_case_witness:
  "remove_background sample_world sample_fs ''photo.jpg'' (Some ''cut.tar.gz'') =
     (Inr ''cut.tar.png'', (''cut.tar.png'', File ''PNG red square'') # sample_fs,
      [Exists ''photo.jpg'', IsFile ''photo.jpg'', OpenRead ''photo.jpg'', Remove, ImageOpen,
       Save ''cut.tar.png''])
   \<and> lower (path_suffix (Path ''cut.tar.png'')) = ''.png''
   \<and> path_suffix (Path ''cut.tar.png'') = ''.png''"
proof -
  have run: "remove_background sample_world sample_fs ''photo.jpg'' (Some ''cut.tar.gz'') =
     (Inr ''cut.tar.png'', (''cut.tar.png'', File ''PNG red square'') # sample_fs,
      [Exists ''photo.jpg'', IsFile ''photo.jpg'', OpenRead ''photo.jpg'', Remove, ImageOpen,
       Save ''cut.tar.png''])"
    by code_simp
  have ne: "lower (path_suffix (Path ''cut.tar.gz'')) \<noteq> ''.png''"
    by code_simp
  show ?thesis
    using run ne returned_suffix_is_png_up_to_case [OF run] by (simp add: lower_png)
qed

text \<open>
  The claim as written fails for the requested output \<open>out.PNG\<close>: the run succeeds and
  returns \<open>out.PNG\<close>, whose suffix is \<open>.PNG\<close>.
\<close>

theorem forced_suffix_counterexample:
  "fst (remove_background sample_world sample_fs ''photo.jpg'' (Some ''out.PNG'')) = Inr ''out.PNG''
   \<and> path_suffix (Path ''out.PNG'') = ''.PNG''"
  by code_simp



section \<open>Errors of the processing block and exit codes\<close>

text \<open>
  Claim C7, as the code has it. Let the input pass validation and the output path be
  resolved, and let the read, the segmentation, the decoding or the save raise. When
  what is raised derives from \<open>Exception\<close>, \<open>remove_background\<close> raises a \<open>ValueError\<close>
  whose message is \<open>Failed to process image: \<close> followed by the message of the cause, and
  \<open>main\<close> returns the exit code 2, provided that the verbose print before the call and
  the print of the error message do not fail. When it does not derive from \<open>Exception\<close>
  (\<open>KeyboardInterrupt\<close>, \<open>SystemExit\<close>), it leaves \<open>remove_background\<close> unchanged.
  Content that is not an image falls under this when the segmentation or the decoding
  raises on it, which is for the two libraries to decide.
\<close>

theorem processing_failure_is_value_error:
  assumes "os_exists w fs (str_path (Path (args_input a))) = Inr True"
    and "os_is_file w fs (str_path (Path (args_input a))) = Inr True"
    and "resolve_output_path (Path (args_input a)) (args_output a) = Inr out"
    and "read_bytes w fs (args_input a) = Inl e
         \<or> (\<exists>input_data. read_bytes w fs (args_input a) = Inr input_data
              \<and> (rembg_remove w input_data = Inl e
                  \<or> (\<exists>output_data. rembg_remove w input_data = Inr output_data
                       \<and> (Image_open w output_data = Inl e
                           \<or> (\<exists>output_image fs'. Image_open w output_data = Inr output_image
                                \<and> Image_save w fs output_image out = (Some e, fs'))))))"
  shows "fst (remove_background w fs (args_input a) (args_output a))
           = (if is_Exception e
              then Inl (Exn ValueError (''Failed to process image: '' @ exc_str e))
              else Inl e)
         \<and> (is_Exception e \<and> verbose_print_ok w a
              \<and> print_stderr w (''Error: Failed to process image: '' @ exc_str e) = None \<longrightarrow>
             fst (main w fs a) = Inr 2)"
proof -
  let ?v = "Exn ValueError (''Failed to process image: '' @ exc_str e)"
  obtain fs' evs where "process_image w fs (args_input a) out = (Inl e, fs', evs)"
    using assms(4) by (auto simp: process_image_def)
  then have run: "fst (remove_background w fs (args_input a) (args_output a))
           = (if is_Exception e then Inl ?v else Inl e)"
    by (simp add: remove_background_validated [OF assms(1-3)])
  have "fst (main w fs a) = Inr 2"
    if ex: "is_Exception e" and v: "verbose_print_ok w a"
      and p: "print_stderr w (''Error: Failed to process image: '' @ exc_str e) = None"
  proof -
    have "fst (try_block w fs a) = Inl ?v"
      using run ex by (intro try_block_raised [OF v]) simp
    moreover have "fst (handle_exception w a ?v) = Inr 2"
      using p by (simp add: handle_ValueError)
    ultimately show ?thesis by (simp add: main_result)
  qed
  then show ?thesis using run by blast
qed

theorem processing_failure_is_value_error_witness:
  "os_exists sample_world sample_fs (str_path (Path ''notes.txt'')) = Inr True
   \<and> os_is_file sample_world sample_fs (str_path (Path ''notes.txt'')) = Inr True
   \<and> read_bytes sample_world sample_fs ''notes.txt'' = Inr ''This is not an image''
   \<and> rembg_remove sample_world ''This is not an image''
        = Inl (Exn (OtherException ''UnidentifiedImageError'') ''cannot identify image file'')
   \<and> fst (remove_background sample_world sample_fs ''notes.txt'' None)
        = Inl (Exn ValueError ''Failed to process image: cannot identify image file'')
   \<and> fst (main sample_world sample_fs
            \<lparr>args_input = ''notes.txt'', args_output = None, args_verbose = False\<rparr>) = Inr 2"
proof -
  let ?a = "\<lparr>args_input = ''notes.txt'', args_output = None, args_verbose = False\<rparr>"
  let ?e = "Exn (OtherException ''UnidentifiedImageError'') ''cannot identify image file''"
  have h1: "os_exists sample_world sample_fs (str_path (Path (args_input ?a))) = Inr True"
    by code_simp
  have h2: "os_is_file sample_world sample_fs (str_path (Path (args_input ?a))) = Inr True"
    by code_simp
  have h3: "resolve_output_path (Path (args_input ?a)) (args_output ?a) = Inr ''notes_nobg.png''"
    by code_simp
  have r: "read_bytes sample_world sample_fs ''notes.txt'' = Inr ''This is not an image''"
    by code_simp
  have t: "rembg_remove sample_world ''This is not an image'' = Inl ?e"
    by code_simp
  have h4: "read_bytes sample_world sample_fs (args_input ?a) = Inl ?e
         \<or> (\<exists>input_data. read_bytes sample_world sample_fs (args_input ?a) = Inr input_data
              \<and> (rembg_remove sample_world input_data = Inl ?e
                  \<or> (\<exists>output_data. rembg_remove sample_world input_data = Inr output_data
                       \<and> (Image_open sample_world output_data = Inl ?e
                           \<or> (\<exists>output_image fs'. Image_open sample_world output_data = Inr output_image
                                \<and> Image_save sample_world sample_fs output_image ''notes_nobg.png'' = (Some ?e, fs'))))))"
    using r t by simp
  have v: "verbose_print_ok sample_world ?a"
    by (simp add: verbose_print_ok_def)
  have p: "print_stderr sample_world (''Error: Failed to process image: '' @ exc_str ?e) = None"
    by (simp add: sample_world_def)
  show ?thesis
    using r t h1 h2 v p processing_failure_is_value_error [OF h1 h2 h3 h4] by simp
qed

text \<open>
  The claim as written fails when the user interrupts the segmentation of a validated
  input: \<open>remove_background\<close> raises the \<open>KeyboardInterrupt\<close>, not a \<open>ValueError\<close>.
\<close>

theorem processing_failure_counterexample:
  "os_exists interrupted_world sample_fs (str_path (Path ''photo.jpg'')) = Inr True
   \<and> os_is_file interrupted_world sample_fs (str_path (Path ''photo.jpg'')) = Inr True
   \<and> read_bytes interrupted_world sample_fs ''photo.jpg'' = Inr ''JPEG red square''
   \<and> rembg_remove interrupted_world ''JPEG red square''
        = Inl (Exn (NonException ''KeyboardInterrupt'') ''interrupted'')
   \<and> fst (remove_background interrupted_world sample_fs ''photo.jpg'' (Some ''cut.png''))
        = Inl (Exn (NonException ''KeyboardInterrupt'') ''interrupted'')"
  by code_simp




text \<open>
  Claim C8, as the code has it. After validation, an exception of class \<open>Exception\<close>
  raised in the processing block (a \<open>FileNotFoundError\<close> of the read among them) is
  raised again as \<open>ValueError\<close>, and an exception outside \<open>Exception\<close> passes unchanged;
  in neither case does \<open>main\<close> return 3, so that exit code is out of reach of the
  processing block. \<open>remove_background\<close> raises \<open>FileNotFoundError\<close>, \<open>ValueError\<close>, an
  exception outside \<open>Exception\<close>, or what one of the two validation checks itself raised.
\<close>

theorem processing_exceptions_are_wrapped:
  "(os_exists w fs (str_path (Path (args_input a))) = Inr True
      \<and> os_is_file w fs (str_path (Path (args_input a))) = Inr True
      \<and> resolve_output_path (Path (args_input a)) (args_output a) = Inr out
      \<and> fst (process_image w fs (args_input a) out) = Inl e
    \<longrightarrow> fst (remove_background w fs (args_input a) (args_output a)) =
          (if is_Exception e
           then Inl (Exn ValueError (''Failed to process image: '' @ exc_str e))
           else Inl e)
        \<and> (verbose_print_ok w a \<longrightarrow> fst (main w fs a) \<noteq> Inr 3))
   \<and> (fst (remove_background w fs (args_input a) (args_output a)) = Inl e' \<longrightarrow>
         exc_class e' = FileNotFoundError \<or> exc_class e' = ValueError \<or> \<not> is_Exception e'
         \<or> os_exists w fs (str_path (Path (args_input a))) = Inl e'
         \<or> os_is_file w fs (str_path (Path (args_input a))) = Inl e')"
proof -
  let ?i = "args_input a" and ?o = "args_output a"
  let ?w = "if is_Exception e
           then Inl (Exn ValueError (''Failed to process image: '' @ exc_str e))
           else Inl e"
  have wrap: "fst (remove_background w fs ?i ?o) = ?w"
    if "os_exists w fs (str_path (Path ?i)) = Inr True"
      and "os_is_file w fs (str_path (Path ?i)) = Inr True"
      and "resolve_output_path (Path ?i) ?o = Inr out"
      and "fst (process_image w fs ?i out) = Inl e"
    using that(4) by (cases "process_image w fs ?i out")
      (simp add: remove_background_validated [OF that(1-3)])
  have no3: "fst (main w fs a) \<noteq> Inr 3"
    if run: "fst (remove_background w fs ?i ?o) = ?w" and v: "verbose_print_ok w a"
  proof (cases "is_Exception e")
    case True
    let ?v = "Exn ValueError (''Failed to process image: '' @ exc_str e)"
    have "fst (try_block w fs a) = Inl ?v"
      using run True by (intro try_block_raised [OF v]) simp
    then have "fst (main w fs a) = fst (handle_exception w a ?v)"
      by (simp add: main_result)
    then show ?thesis using handle_not_3 [of ?v w a] by simp
  next
    case False
    have "fst (try_block w fs a) = Inl e"
      using run False by (intro try_block_raised [OF v]) simp
    then have "fst (main w fs a) = fst (handle_exception w a e)"
      by (simp add: main_result)
    then show ?thesis using handle_not_3 [of e w a] False by simp
  qed
  have raised: "exc_class x = FileNotFoundError \<or> exc_class x = ValueError \<or> \<not> is_Exception x
         \<or> os_exists w fs (str_path (Path ?i)) = Inl x
         \<or> os_is_file w fs (str_path (Path ?i)) = Inl x"
    if "fst (remove_background w fs ?i ?o) = Inl x" for x
    using that
    by (auto simp: remove_background_def Let_def resolve_output_path_def with_suffix_def
             split: sum.splits bool.splits prod.splits if_splits option.splits)
  show ?thesis using wrap no3 raised by blast
qed

theorem processing_exceptions_are_wrapped_witness:
  "fst (process_image vanishing_world sample_fs ''photo.jpg'' ''photo_nobg.png'')
     = Inl (Exn FileNotFoundError ''[Errno 2] No such file or directory'')
   \<and> fst (remove_background vanishing_world sample_fs ''photo.jpg'' None)
     = Inl (Exn ValueError ''Failed to process image: [Errno 2] No such file or directory'')
   \<and> fst (main vanishing_world sample_fs
            \<lparr>args_input = ''photo.jpg'', args_output = None, args_verbose = False\<rparr>) \<noteq> Inr 3"
proof -
  let ?a = "\<lparr>args_input = ''photo.jpg'', args_output = None, args_verbose = False\<rparr>"
  let ?e = "Exn FileNotFoundError ''[Errno 2] No such file or directory''"
  have h1: "os_exists vanishing_world sample_fs (str_path (Path ''photo.jpg'')) = Inr True"
    by code_simp
  have h2: "os_is_file vanishing_world sample_fs (str_path (Path ''photo.jpg'')) = Inr True"
    by code_simp
  have h3: "resolve_output_path (Path ''photo.jpg'') None = Inr ''photo_nobg.png''"
    by code_simp
  have h4: "fst (process_image vanishing_world sample_fs ''photo.jpg'' ''photo_nobg.png'') = Inl ?e"
    by code_simp
  have v: "verbose_print_ok vanishing_world ?a"
    by (simp add: verbose_print_ok_def)
  show ?thesis
    using h1 h2 h3 h4 v
      processing_exceptions_are_wrapped [where w = vanishing_world and fs = sample_fs
        and a = ?a and out = "''photo_nobg.png''" and e = ?e and e' = ?e]
    by simp
qed

text \<open>
  The claim as written fails twice: an interrupt during the segmentation leaves
  \<open>remove_background\<close> as \<open>KeyboardInterrupt\<close>, and a \<open>PermissionError\<close> of the existence
  check leaves it as \<open>PermissionError\<close>, for which \<open>main\<close> returns 3.
\<close>

theorem only_two_errors_counterexample:
  "fst (remove_background interrupted_world sample_fs ''photo.jpg'' None)
     = Inl (Exn (NonException ''KeyboardInterrupt'') ''interrupted'')
   \<and> fst (remove_background guarded_world sample_fs ''photo.jpg'' None)
     = Inl (Exn (OtherException ''PermissionError'') ''[Errno 13] Permission denied'')
   \<and> fst (main guarded_world sample_fs
            \<lparr>args_input = ''photo.jpg'', args_output = None, args_verbose = False\<rparr>) = Inr 3"
  by code_simp

end
